theory Spec2Isabelle
  imports Main
begin

section \<open>The Tekton PipelineRun reconciler of ks-devops\<close>

text \<open>
  A shallow embedding of \<^verbatim>\<open>controllers/tekton/pipelinerun_controller.go\<close>:
  \<^verbatim>\<open>PipelineRunReconciler.Reconcile\<close>, \<^verbatim>\<open>deleteExternalResources\<close>,
  \<^verbatim>\<open>reconcileTektonCrd\<close> and \<^verbatim>\<open>reconcileTektonPipelineRun\<close>.
  The cluster the reconciler talks to is an explicit state that every function takes
  and returns; every store call is written into a call log, in the order the code
  issues it, together with the answer it got.
\<close>

subsection \<open>Data model\<close>

type_synonym NamespacedName = "string \<times> string"

text \<open>
  Modelled from the spec: the Go types \<^verbatim>\<open>metav1.ObjectMeta\<close>,
  \<^verbatim>\<open>devopsv2alpha1.PipelineRun\<close> and \<^verbatim>\<open>devopsv2alpha1.PipelineRunSpec\<close> are declared
  outside the source file. The fields are the ones the code reads and the data model
  names: identity (namespace and name), the finalizer markers, an optional deletion
  timestamp, and the specification with \<^verbatim>\<open>name\<close> and \<^verbatim>\<open>pipelineRef\<close>. A timestamp is a
  number of ticks after Go's zero instant.
\<close>

record ObjectMeta =
  Name :: string
  Namespace :: string
  DeletionTimestamp :: "nat option"
  Finalizers :: "string list"

record PipelineRunSpec =
  SpecName :: string
  PipelineRef :: string

record PipelineRun =
  Meta :: ObjectMeta
  Spec :: PipelineRunSpec

text \<open>
  Modelled from the spec: the Tekton types \<^verbatim>\<open>tektonv1.PipelineRun\<close>,
  \<^verbatim>\<open>tektonv1.PipelineRunSpec\<close> and \<^verbatim>\<open>tektonv1.PipelineRef\<close> (the derived resource) are
  declared outside the source file. \<^verbatim>\<open>Spec.PipelineRef\<close> is a pointer, hence an option.
\<close>

record TypeMeta =
  Kind :: string
  APIVersion :: string

record TektonPipelineRef =
  RefName :: string

record TektonPipelineRunSpec =
  TknPipelineRef :: "TektonPipelineRef option"

record TektonPipelineRun =
  TknTypeMeta :: TypeMeta
  TknMeta :: ObjectMeta
  TknSpec :: TektonPipelineRunSpec

text \<open>The errors a store call can answer with; \<open>Other\<close> carries a transient failure.\<close>

datatype error = NotFound | Conflict | AlreadyExists | Other string

text \<open>
  The six store calls of the source file: \<^verbatim>\<open>r.Get\<close> and \<^verbatim>\<open>r.Update\<close> on the declarative
  record, \<^verbatim>\<open>TknClientset...Get\<close> and \<^verbatim>\<open>TknClientset...Delete\<close> during cleanup, and
  \<^verbatim>\<open>r.Get\<close> and \<^verbatim>\<open>r.Create\<close> on the Tekton PipelineRun.
\<close>

datatype op =
    GetPipelineRun
  | UpdatePipelineRun
  | TknGet
  | TknDelete
  | GetTektonPipelineRun
  | CreateTektonPipelineRun

datatype call = Call op NamespacedName "error option"

record cluster =
  pipelineRuns :: "NamespacedName \<rightharpoonup> PipelineRun"
  tektonPipelineRuns :: "NamespacedName \<rightharpoonup> TektonPipelineRun"
  calls :: "call list"

text \<open>
  A store call can fail for reasons outside the stored data (a conflict on the resource
  version, a timeout). One reconciliation issues each of the six calls at most once, so
  the failures of one reconciliation are a function from the call to the error it is
  answered with, if any.
\<close>

type_synonym faults = "op \<Rightarrow> error option"

text \<open>\<^verbatim>\<open>ctrl.Result\<close>; \<^verbatim>\<open>ctrl.Result{}\<close> is its zero value.\<close>

record Result =
  Requeue :: bool
  RequeueAfter :: nat

definition Result_zero :: Result where
  "Result_zero = \<lparr>Requeue = False, RequeueAfter = 0\<rparr>"

subsection \<open>The store adapter\<close>

definition key_of :: "ObjectMeta \<Rightarrow> NamespacedName" where
  "key_of m = (Namespace m, Name m)"

definition record_call :: "op \<Rightarrow> NamespacedName \<Rightarrow> error option \<Rightarrow> cluster \<Rightarrow> cluster" where
  "record_call p k r c = c\<lparr>calls := calls c @ [Call p k r]\<rparr>"

text \<open>The answer of a call: the injected failure if there is one, else the store's own.\<close>

definition answer :: "faults \<Rightarrow> op \<Rightarrow> error option \<Rightarrow> error option" where
  "answer f p own = (case f p of Some e \<Rightarrow> Some e | None \<Rightarrow> own)"

text \<open>
  Modelled from the spec: the client's \<^verbatim>\<open>Get\<close> for the declarative record is not in
  the source file; the boundary contract is \<^verbatim>\<open>get(key) -> Record | NotFound\<close>.
\<close>

definition client_Get :: "faults \<Rightarrow> NamespacedName \<Rightarrow> cluster \<Rightarrow> (error + PipelineRun) \<times> cluster" where
  "client_Get f key c =
     (case answer f GetPipelineRun (case pipelineRuns c key of None \<Rightarrow> Some NotFound | Some _ \<Rightarrow> None) of
        Some e \<Rightarrow> (Inl e, record_call GetPipelineRun key (Some e) c)
      | None \<Rightarrow>
          (case pipelineRuns c key of
             None \<Rightarrow> (Inl NotFound, record_call GetPipelineRun key (Some NotFound) c)
           | Some obj \<Rightarrow> (Inr obj, record_call GetPipelineRun key None c)))"

text \<open>
  Modelled from the spec: the client's \<^verbatim>\<open>Update\<close> is not in the source file; the
  boundary contract is \<^verbatim>\<open>update(record) -> ok | Conflict | other-error\<close>. The object is
  stored under its own namespace and name.
\<close>

definition client_Update :: "faults \<Rightarrow> PipelineRun \<Rightarrow> cluster \<Rightarrow> error option \<times> cluster" where
  "client_Update f obj c =
     (let key = key_of (Meta obj) in
      case answer f UpdatePipelineRun (case pipelineRuns c key of None \<Rightarrow> Some NotFound | Some _ \<Rightarrow> None) of
        Some e \<Rightarrow> (Some e, record_call UpdatePipelineRun key (Some e) c)
      | None \<Rightarrow>
          (None, record_call UpdatePipelineRun key None
                   (c\<lparr>pipelineRuns := (pipelineRuns c)(key \<mapsto> obj)\<rparr>)))"

text \<open>
  Modelled from the spec: the Tekton clientset's \<^verbatim>\<open>Get\<close> is not in the source file;
  the boundary contract is \<^verbatim>\<open>getDerived(key) -> DerivedResource | NotFound\<close>.
\<close>

definition tkn_Get :: "faults \<Rightarrow> NamespacedName \<Rightarrow> cluster \<Rightarrow> (error + TektonPipelineRun) \<times> cluster" where
  "tkn_Get f key c =
     (case answer f TknGet (case tektonPipelineRuns c key of None \<Rightarrow> Some NotFound | Some _ \<Rightarrow> None) of
        Some e \<Rightarrow> (Inl e, record_call TknGet key (Some e) c)
      | None \<Rightarrow>
          (case tektonPipelineRuns c key of
             None \<Rightarrow> (Inl NotFound, record_call TknGet key (Some NotFound) c)
           | Some t \<Rightarrow> (Inr t, record_call TknGet key None c)))"

text \<open>
  Modelled from the spec: the Tekton clientset's \<^verbatim>\<open>Delete\<close> is not in the source file;
  the boundary contract is \<^verbatim>\<open>deleteDerived(key) -> ok | NotFound | other-error\<close>.
\<close>

definition tkn_Delete :: "faults \<Rightarrow> NamespacedName \<Rightarrow> cluster \<Rightarrow> error option \<times> cluster" where
  "tkn_Delete f key c =
     (case answer f TknDelete (case tektonPipelineRuns c key of None \<Rightarrow> Some NotFound | Some _ \<Rightarrow> None) of
        Some e \<Rightarrow> (Some e, record_call TknDelete key (Some e) c)
      | None \<Rightarrow>
          (None, record_call TknDelete key None
                   (c\<lparr>tektonPipelineRuns := (tektonPipelineRuns c)(key := None)\<rparr>)))"

text \<open>
  Modelled from the spec: the client's \<^verbatim>\<open>Get\<close> for a Tekton PipelineRun is not in the
  source file; the boundary contract is \<^verbatim>\<open>getDerived(key) -> DerivedResource | NotFound\<close>.
\<close>

definition client_Get_tekton :: "faults \<Rightarrow> NamespacedName \<Rightarrow> cluster \<Rightarrow> (error + TektonPipelineRun) \<times> cluster" where
  "client_Get_tekton f key c =
     (case answer f GetTektonPipelineRun (case tektonPipelineRuns c key of None \<Rightarrow> Some NotFound | Some _ \<Rightarrow> None) of
        Some e \<Rightarrow> (Inl e, record_call GetTektonPipelineRun key (Some e) c)
      | None \<Rightarrow>
          (case tektonPipelineRuns c key of
             None \<Rightarrow> (Inl NotFound, record_call GetTektonPipelineRun key (Some NotFound) c)
           | Some t \<Rightarrow> (Inr t, record_call GetTektonPipelineRun key None c)))"

text \<open>
  Modelled from the spec: the client's \<^verbatim>\<open>Create\<close> is not in the source file; the
  boundary contract is \<^verbatim>\<open>createDerived(spec) -> ok | AlreadyExists | other-error\<close>.
\<close>

definition client_Create :: "faults \<Rightarrow> TektonPipelineRun \<Rightarrow> cluster \<Rightarrow> error option \<times> cluster" where
  "client_Create f t c =
     (let key = key_of (TknMeta t) in
      case answer f CreateTektonPipelineRun (case tektonPipelineRuns c key of None \<Rightarrow> None | Some _ \<Rightarrow> Some AlreadyExists) of
        Some e \<Rightarrow> (Some e, record_call CreateTektonPipelineRun key (Some e) c)
      | None \<Rightarrow>
          (None, record_call CreateTektonPipelineRun key None
                   (c\<lparr>tektonPipelineRuns := (tektonPipelineRuns c)(key \<mapsto> t)\<rparr>)))"

text \<open>
  Modelled from the spec: \<^verbatim>\<open>client.IgnoreNotFound\<close> is not in the source file; NotFound
  is the benign error that counts as success, every other error is passed on.
\<close>

fun IgnoreNotFound :: "error \<Rightarrow> error option" where
  "IgnoreNotFound NotFound = None"
| "IgnoreNotFound e = Some e"

subsection \<open>Finalizers\<close>

text \<open>
  Modelled from the spec: \<^verbatim>\<open>DeletionTimestamp.IsZero()\<close> is not in the source file; the
  timestamp is unset when the pointer is nil or the time is the zero instant.
\<close>

fun IsZero :: "nat option \<Rightarrow> bool" where
  "IsZero None = True"
| "IsZero (Some t) = (t = 0)"

text \<open>
  Modelled from the spec: the helper \<^verbatim>\<open>containsString\<close> is not in the source file; it
  is the membership test on the finalizer list.
\<close>

fun containsString :: "string list \<Rightarrow> string \<Rightarrow> bool" where
  "containsString [] s = False"
| "containsString (item # slice) s = (if item = s then True else containsString slice s)"

text \<open>
  Modelled from the spec: \<^verbatim>\<open>controllerutil.AddFinalizer\<close> is not in the source file; the
  marker is inserted exactly once, at the end of the list.
\<close>

definition AddFinalizer :: "PipelineRun \<Rightarrow> string \<Rightarrow> PipelineRun" where
  "AddFinalizer obj finalizer =
     (if finalizer \<in> set (Finalizers (Meta obj)) then obj
      else obj\<lparr>Meta := (Meta obj)\<lparr>Finalizers := Finalizers (Meta obj) @ [finalizer]\<rparr>\<rparr>)"

text \<open>
  Modelled from the spec: \<^verbatim>\<open>controllerutil.RemoveFinalizer\<close> is not in the source file;
  every occurrence of the marker is taken out of the list.
\<close>

definition RemoveFinalizer :: "PipelineRun \<Rightarrow> string \<Rightarrow> PipelineRun" where
  "RemoveFinalizer obj finalizer =
     obj\<lparr>Meta := (Meta obj)\<lparr>Finalizers := filter (\<lambda>e. e \<noteq> finalizer) (Finalizers (Meta obj))\<rparr>\<rparr>"

subsection \<open>The reconciler\<close>

text \<open>
  \<^verbatim>\<open>deleteExternalResources\<close>: look the Tekton PipelineRun up under the record's
  namespace and \<^verbatim>\<open>Spec.Name\<close>; on any error of the lookup return nil; else delete it
  and return the error of the delete, if any.
\<close>

definition deleteExternalResources :: "faults \<Rightarrow> PipelineRun \<Rightarrow> cluster \<Rightarrow> error option \<times> cluster" where
  "deleteExternalResources f pipelineRun c =
     (let tknPipelineRunName = SpecName (Spec pipelineRun);
          key = (Namespace (Meta pipelineRun), tknPipelineRunName) in
      case tkn_Get f key c of
        (Inl err, c1) \<Rightarrow> (None, c1)
      | (Inr found, c1) \<Rightarrow>
          (case tkn_Delete f key c1 of
             (Some err, c2) \<Rightarrow> (Some err, c2)
           | (None, c2) \<Rightarrow> (None, c2)))"

text \<open>The Tekton PipelineRun that \<^verbatim>\<open>reconcileTektonPipelineRun\<close> sets up.\<close>

definition tektonPipelineRun :: "string \<Rightarrow> PipelineRunSpec \<Rightarrow> TektonPipelineRun" where
  "tektonPipelineRun namespace pipelineRun =
     \<lparr>TknTypeMeta = \<lparr>Kind = ''PipelineRun'', APIVersion = ''tekton.dev/v1beta1''\<rparr>,
      TknMeta = \<lparr>Name = SpecName pipelineRun, Namespace = namespace,
                 DeletionTimestamp = None, Finalizers = []\<rparr>,
      TknSpec = \<lparr>TknPipelineRef = Some \<lparr>RefName = PipelineRef pipelineRun\<rparr>\<rparr>\<rparr>"

text \<open>
  \<^verbatim>\<open>reconcileTektonPipelineRun\<close>: look the Tekton PipelineRun up under the request's
  namespace and \<^verbatim>\<open>Spec.Name\<close>; on any error of the lookup create it and return the error
  of the create, if any; when the lookup succeeds only log and return nil.
\<close>

definition reconcileTektonPipelineRun :: "faults \<Rightarrow> string \<Rightarrow> PipelineRunSpec \<Rightarrow> cluster \<Rightarrow> error option \<times> cluster" where
  "reconcileTektonPipelineRun f namespace pipelineRun c =
     (case client_Get_tekton f (namespace, SpecName pipelineRun) c of
        (Inl err, c1) \<Rightarrow>
          (case client_Create f (tektonPipelineRun namespace pipelineRun) c1 of
             (Some err, c2) \<Rightarrow> (Some err, c2)
           | (None, c2) \<Rightarrow> (None, c2))
      | (Inr tPipelineRun, c1) \<Rightarrow> (None, c1))"

definition reconcileTektonCrd :: "faults \<Rightarrow> string \<Rightarrow> PipelineRun \<Rightarrow> cluster \<Rightarrow> error option \<times> cluster" where
  "reconcileTektonCrd f namespace pipelineRun c =
     reconcileTektonPipelineRun f namespace (Spec pipelineRun) c"

text \<open>
  The third step of \<^verbatim>\<open>Reconcile\<close> (lines 91 to 97): the core logic, and the two returns
  after it.
\<close>

definition Reconcile_third :: "faults \<Rightarrow> NamespacedName \<Rightarrow> PipelineRun \<Rightarrow> cluster \<Rightarrow> (Result \<times> error option) \<times> cluster" where
  "Reconcile_third f req pipelineRun c =
     (case reconcileTektonCrd f (fst req) pipelineRun c of
        (Some err, c1) \<Rightarrow> ((Result_zero, Some err), c1)
      | (None, c1) \<Rightarrow> ((Result_zero, None), c1))"

text \<open>
  \<^verbatim>\<open>Reconcile\<close>. The finalizer name \<^verbatim>\<open>devopsv2alpha1.PipelineRunFinalizerName\<close> is a
  constant declared outside the source file, so it is the parameter
  \<open>pipelineRunFinalizerName\<close>.
\<close>

definition Reconcile :: "string \<Rightarrow> faults \<Rightarrow> NamespacedName \<Rightarrow> cluster \<Rightarrow> (Result \<times> error option) \<times> cluster" where
  "Reconcile pipelineRunFinalizerName f req c =
     (case client_Get f req c of
        (Inl err, c1) \<Rightarrow> ((Result_zero, IgnoreNotFound err), c1)
      | (Inr pipelineRun, c1) \<Rightarrow>
          if IsZero (DeletionTimestamp (Meta pipelineRun)) then
            (if \<not> containsString (Finalizers (Meta pipelineRun)) pipelineRunFinalizerName then
               (let pipelineRun' = AddFinalizer pipelineRun pipelineRunFinalizerName in
                case client_Update f pipelineRun' c1 of
                  (Some err, c2) \<Rightarrow> ((Result_zero, Some err), c2)
                | (None, c2) \<Rightarrow> Reconcile_third f req pipelineRun' c2)
             else Reconcile_third f req pipelineRun c1)
          else
            (if containsString (Finalizers (Meta pipelineRun)) pipelineRunFinalizerName then
               (case deleteExternalResources f pipelineRun c1 of
                  (Some err, c2) \<Rightarrow> ((Result_zero, Some err), c2)
                | (None, c2) \<Rightarrow>
                    (let pipelineRun' = RemoveFinalizer pipelineRun pipelineRunFinalizerName in
                     case client_Update f pipelineRun' c2 of
                       (Some err, c3) \<Rightarrow> ((Result_zero, Some err), c3)
                     | (None, c3) \<Rightarrow> ((Result_zero, None), c3)))
             else ((Result_zero, None), c1)))"

text \<open>The store call that a log entry records.\<close>

fun call_op :: "call \<Rightarrow> op" where
  "call_op (Call p k r) = p"

subsection \<open>A running example\<close>

text \<open>
  The scenario record: namespace \<^verbatim>\<open>ci\<close>, name \<^verbatim>\<open>build-1\<close>, template \<^verbatim>\<open>tpl-a\<close>, first as
  it is created (active, no finalizer), then with the finalizer, then marked for
  deletion; the derived resource of the scenario; a store whose calls never fail.
\<close>

definition example_finalizer :: string where
  "example_finalizer = ''pipelinerun.finalizers.kubesphere.io''"

definition no_faults :: faults where
  "no_faults = (\<lambda>p. None)"

definition build1_key :: NamespacedName where
  "build1_key = (''ci'', ''build-1'')"

definition build1 :: PipelineRun where
  "build1 = \<lparr>Meta = \<lparr>Name = ''build-1'', Namespace = ''ci'',
                       DeletionTimestamp = None, Finalizers = []\<rparr>,
             Spec = \<lparr>SpecName = ''build-1'', PipelineRef = ''tpl-a''\<rparr>\<rparr>"

definition build1_registered :: PipelineRun where
  "build1_registered = build1\<lparr>Meta := (Meta build1)\<lparr>Finalizers := [example_finalizer]\<rparr>\<rparr>"

definition build1_deleting :: PipelineRun where
  "build1_deleting =
     build1\<lparr>Meta := (Meta build1)\<lparr>DeletionTimestamp := Some 1700000000,
                                   Finalizers := [example_finalizer]\<rparr>\<rparr>"

definition build1_derived :: TektonPipelineRun where
  "build1_derived =
     \<lparr>TknTypeMeta = \<lparr>Kind = ''PipelineRun'', APIVersion = ''tekton.dev/v1beta1''\<rparr>,
      TknMeta = \<lparr>Name = ''build-1'', Namespace = ''ci'', DeletionTimestamp = None, Finalizers = []\<rparr>,
      TknSpec = \<lparr>TknPipelineRef = Some \<lparr>RefName = ''tpl-a''\<rparr>\<rparr>\<rparr>"

definition empty_cluster :: cluster where
  "empty_cluster = \<lparr>pipelineRuns = Map.empty, tektonPipelineRuns = Map.empty, calls = []\<rparr>"

text \<open>
  The stores of the scenario at each stage: the record as created, with the finalizer
  registered, with its derived resource running, marked for deletion, marked for
  deletion with the derived resource already gone, and a freshly created record whose
  target name is already taken by a Tekton PipelineRun. Then the record once its
  finalizer is released, and stores whose cleanup lookup, delete, update or creation
  lookup fails.
\<close>

definition cluster_created :: cluster where
  "cluster_created =
     \<lparr>pipelineRuns = [build1_key \<mapsto> build1], tektonPipelineRuns = Map.empty, calls = []\<rparr>"

definition cluster_registered :: cluster where
  "cluster_registered =
     \<lparr>pipelineRuns = [build1_key \<mapsto> build1_registered], tektonPipelineRuns = Map.empty,
      calls = []\<rparr>"

definition cluster_running :: cluster where
  "cluster_running =
     \<lparr>pipelineRuns = [build1_key \<mapsto> build1_registered],
      tektonPipelineRuns = [build1_key \<mapsto> build1_derived], calls = []\<rparr>"

definition cluster_deleting :: cluster where
  "cluster_deleting =
     \<lparr>pipelineRuns = [build1_key \<mapsto> build1_deleting],
      tektonPipelineRuns = [build1_key \<mapsto> build1_derived], calls = []\<rparr>"

definition cluster_deleting_orphan :: cluster where
  "cluster_deleting_orphan =
     \<lparr>pipelineRuns = [build1_key \<mapsto> build1_deleting], tektonPipelineRuns = Map.empty,
      calls = []\<rparr>"

definition cluster_collision :: cluster where
  "cluster_collision =
     \<lparr>pipelineRuns = [build1_key \<mapsto> build1],
      tektonPipelineRuns = [build1_key \<mapsto> build1_derived], calls = []\<rparr>"

definition build1_released :: PipelineRun where
  "build1_released = build1_deleting\<lparr>Meta := (Meta build1_deleting)\<lparr>Finalizers := []\<rparr>\<rparr>"

definition lookup_timeout :: faults where
  "lookup_timeout = no_faults(TknGet := Some (Other ''timeout''))"

definition delete_timeout :: faults where
  "delete_timeout = no_faults(TknDelete := Some (Other ''timeout''))"

definition update_conflict :: faults where
  "update_conflict = no_faults(UpdatePipelineRun := Some Conflict)"

definition creation_lookup_timeout :: faults where
  "creation_lookup_timeout = no_faults(GetTektonPipelineRun := Some (Other ''timeout''))"

lemmas example_defs = example_finalizer_def no_faults_def build1_key_def build1_def
  build1_registered_def build1_deleting_def build1_derived_def empty_cluster_def

lemmas cluster_defs = cluster_created_def cluster_registered_def cluster_running_def
  cluster_deleting_def cluster_deleting_orphan_def cluster_collision_def build1_released_def
  lookup_timeout_def delete_timeout_def update_conflict_def
  creation_lookup_timeout_def

lemmas run_defs = Reconcile_def Reconcile_third_def reconcileTektonCrd_def
  reconcileTektonPipelineRun_def deleteExternalResources_def tektonPipelineRun_def
  client_Get_def client_Update_def tkn_Get_def tkn_Delete_def client_Get_tekton_def
  client_Create_def answer_def record_call_def key_of_def AddFinalizer_def
  RemoveFinalizer_def Let_def

section \<open>Properties\<close>

subsection \<open>Store calls\<close>

lemma containsString_iff: "containsString xs s = (s \<in> set xs)"
  by (induction xs) auto

lemma pipelineRuns_record_call: "pipelineRuns (record_call p k r c) = pipelineRuns c"
  by (simp add: record_call_def)

lemma tektonPipelineRuns_record_call:
  "tektonPipelineRuns (record_call p k r c) = tektonPipelineRuns c"
  by (simp add: record_call_def)

lemma calls_record_call: "calls (record_call p k r c) = calls c @ [Call p k r]"
  by (simp add: record_call_def)

lemmas record_call_simps = pipelineRuns_record_call tektonPipelineRuns_record_call
  calls_record_call

lemma client_Get_found:
  "f GetPipelineRun = None \<Longrightarrow> pipelineRuns c key = Some obj \<Longrightarrow>
   client_Get f key c = (Inr obj, record_call GetPipelineRun key None c)"
  by (simp add: client_Get_def answer_def)

lemma client_Get_absent:
  "f GetPipelineRun = None \<Longrightarrow> pipelineRuns c key = None \<Longrightarrow>
   client_Get f key c = (Inl NotFound, record_call GetPipelineRun key (Some NotFound) c)"
  by (simp add: client_Get_def answer_def)

lemma client_Get_fault:
  "f GetPipelineRun = Some e \<Longrightarrow>
   client_Get f key c = (Inl e, record_call GetPipelineRun key (Some e) c)"
  by (simp add: client_Get_def answer_def)

lemma client_Update_ok:
  "f UpdatePipelineRun = None \<Longrightarrow> pipelineRuns c (key_of (Meta obj)) \<noteq> None \<Longrightarrow>
   client_Update f obj c =
     (None, record_call UpdatePipelineRun (key_of (Meta obj)) None
              (c\<lparr>pipelineRuns := (pipelineRuns c)(key_of (Meta obj) \<mapsto> obj)\<rparr>))"
  by (auto simp add: client_Update_def answer_def Let_def)

lemma client_Update_fault:
  "f UpdatePipelineRun = Some e \<Longrightarrow>
   client_Update f obj c =
     (Some e, record_call UpdatePipelineRun (key_of (Meta obj)) (Some e) c)"
  by (simp add: client_Update_def answer_def Let_def)

lemma tkn_Get_found:
  "f TknGet = None \<Longrightarrow> tektonPipelineRuns c key = Some t \<Longrightarrow>
   tkn_Get f key c = (Inr t, record_call TknGet key None c)"
  by (simp add: tkn_Get_def answer_def)

lemma tkn_Delete_ok:
  "f TknDelete = None \<Longrightarrow> tektonPipelineRuns c key \<noteq> None \<Longrightarrow>
   tkn_Delete f key c =
     (None, record_call TknDelete key None
              (c\<lparr>tektonPipelineRuns := (tektonPipelineRuns c)(key := None)\<rparr>))"
  by (auto simp add: tkn_Delete_def answer_def)

lemma tkn_Delete_fault:
  "f TknDelete = Some e \<Longrightarrow>
   tkn_Delete f key c = (Some e, record_call TknDelete key (Some e) c)"
  by (simp add: tkn_Delete_def answer_def)

subsection \<open>Finalizers\<close>

lemma key_of_RemoveFinalizer: "key_of (Meta (RemoveFinalizer p fin)) = key_of (Meta p)"
  by (simp add: RemoveFinalizer_def key_of_def)

lemma key_of_AddFinalizer: "key_of (Meta (AddFinalizer p fin)) = key_of (Meta p)"
  by (simp add: AddFinalizer_def key_of_def)

lemma Spec_AddFinalizer: "Spec (AddFinalizer p fin) = Spec p"
  by (simp add: AddFinalizer_def)

lemma DeletionTimestamp_RemoveFinalizer:
  "DeletionTimestamp (Meta (RemoveFinalizer p fin)) = DeletionTimestamp (Meta p)"
  by (simp add: RemoveFinalizer_def)

lemma RemoveFinalizer_removes:
  "\<not> containsString (Finalizers (Meta (RemoveFinalizer p fin))) fin"
  by (simp add: RemoveFinalizer_def containsString_iff)

lemma AddFinalizer_adds:
  "\<not> containsString (Finalizers (Meta p)) fin \<Longrightarrow>
   Finalizers (Meta (AddFinalizer p fin)) = Finalizers (Meta p) @ [fin]"
  by (simp add: AddFinalizer_def containsString_iff)

subsection \<open>Cleanup and creation, path by path\<close>

lemma deleteExternalResources_absent:
  "tektonPipelineRuns c (Namespace (Meta p), SpecName (Spec p)) = None \<Longrightarrow>
   deleteExternalResources f p c =
     (None, record_call TknGet (Namespace (Meta p), SpecName (Spec p))
              (answer f TknGet (Some NotFound)) c)"
  by (simp add: deleteExternalResources_def tkn_Get_def answer_def Let_def split: option.splits)

lemma deleteExternalResources_lookup_fault:
  "f TknGet = Some e \<Longrightarrow>
   deleteExternalResources f p c =
     (None, record_call TknGet (Namespace (Meta p), SpecName (Spec p)) (Some e) c)"
  by (simp add: deleteExternalResources_def tkn_Get_def answer_def Let_def)

lemma deleteExternalResources_deleted:
  "f TknGet = None \<Longrightarrow> f TknDelete = None \<Longrightarrow>
   tektonPipelineRuns c (Namespace (Meta p), SpecName (Spec p)) = Some t \<Longrightarrow>
   deleteExternalResources f p c =
     (None, c\<lparr>tektonPipelineRuns :=
                 (tektonPipelineRuns c)((Namespace (Meta p), SpecName (Spec p)) := None),
               calls := calls c @
                 [Call TknGet (Namespace (Meta p), SpecName (Spec p)) None,
                  Call TknDelete (Namespace (Meta p), SpecName (Spec p)) None]\<rparr>)"
  by (simp add: deleteExternalResources_def tkn_Get_found tkn_Delete_ok Let_def
        record_call_def)

lemma deleteExternalResources_delete_fault:
  "f TknGet = None \<Longrightarrow> f TknDelete = Some e \<Longrightarrow>
   tektonPipelineRuns c (Namespace (Meta p), SpecName (Spec p)) = Some t \<Longrightarrow>
   deleteExternalResources f p c =
     (Some e, c\<lparr>calls := calls c @
                 [Call TknGet (Namespace (Meta p), SpecName (Spec p)) None,
                  Call TknDelete (Namespace (Meta p), SpecName (Spec p)) (Some e)]\<rparr>)"
  by (simp add: deleteExternalResources_def tkn_Get_found tkn_Delete_fault Let_def
        record_call_def)

lemma deleteExternalResources_no_delete_fault:
  "f TknDelete = None \<Longrightarrow> fst (deleteExternalResources f p c) = None"
  by (simp add: deleteExternalResources_def tkn_Get_def tkn_Delete_def
        answer_def record_call_def Let_def split: option.splits)

lemma pipelineRuns_deleteExternalResources:
  "pipelineRuns (snd (deleteExternalResources f p c)) = pipelineRuns c"
  by (simp add: deleteExternalResources_def tkn_Get_def tkn_Delete_def
        answer_def record_call_def Let_def split: option.splits)

lemma calls_deleteExternalResources:
  "\<exists>r. calls (snd (deleteExternalResources f p c)) = calls c @ r \<and>
       (\<forall>x\<in>set r. call_op x = TknGet \<or> call_op x = TknDelete)"
  by (simp add: deleteExternalResources_def tkn_Get_def tkn_Delete_def
        answer_def record_call_def Let_def split: option.splits)

lemma reconcileTektonPipelineRun_exists:
  "f GetTektonPipelineRun = None \<Longrightarrow> tektonPipelineRuns c (ns, SpecName s) = Some t \<Longrightarrow>
   reconcileTektonPipelineRun f ns s c =
     (None, c\<lparr>calls := calls c @ [Call GetTektonPipelineRun (ns, SpecName s) None]\<rparr>)"
  by (simp add: reconcileTektonPipelineRun_def client_Get_tekton_def answer_def record_call_def)

lemma reconcileTektonPipelineRun_creates:
  "f CreateTektonPipelineRun = None \<Longrightarrow> tektonPipelineRuns c (ns, SpecName s) = None \<Longrightarrow>
   reconcileTektonPipelineRun f ns s c =
     (None, c\<lparr>tektonPipelineRuns :=
                 (tektonPipelineRuns c)((ns, SpecName s) \<mapsto> tektonPipelineRun ns s),
               calls := calls c @
                 [Call GetTektonPipelineRun (ns, SpecName s)
                    (answer f GetTektonPipelineRun (Some NotFound)),
                  Call CreateTektonPipelineRun (ns, SpecName s) None]\<rparr>)"
  by (simp add: reconcileTektonPipelineRun_def client_Get_tekton_def client_Create_def
        answer_def record_call_def key_of_def tektonPipelineRun_def Let_def split: option.splits)

lemma pipelineRuns_reconcileTektonPipelineRun:
  "pipelineRuns (snd (reconcileTektonPipelineRun f ns s c)) = pipelineRuns c"
  by (simp add: reconcileTektonPipelineRun_def client_Get_tekton_def client_Create_def
        answer_def record_call_def Let_def split: option.splits)

lemma calls_reconcileTektonPipelineRun:
  "\<exists>r. calls (snd (reconcileTektonPipelineRun f ns s c)) = calls c @ r \<and>
       (\<forall>x\<in>set r. call_op x = GetTektonPipelineRun \<or> call_op x = CreateTektonPipelineRun)"
  by (simp add: reconcileTektonPipelineRun_def client_Get_tekton_def client_Create_def
        answer_def record_call_def Let_def split: option.splits)

lemma Reconcile_third_Result: "fst (fst (Reconcile_third f req p c)) = Result_zero"
  by (simp add: Reconcile_third_def split: prod.splits option.splits)

lemma Reconcile_third_snd:
  "snd (Reconcile_third f req p c) = snd (reconcileTektonPipelineRun f (fst req) (Spec p) c)"
  by (simp add: Reconcile_third_def reconcileTektonCrd_def split: prod.splits option.splits)

lemma Reconcile_third_calls:
  "\<exists>r. calls (snd (Reconcile_third f req q c)) = calls c @ r \<and>
       (\<forall>x\<in>set r. call_op x = GetTektonPipelineRun \<or> call_op x = CreateTektonPipelineRun)"
  by (simp add: Reconcile_third_snd calls_reconcileTektonPipelineRun)

subsection \<open>The scenario's keys\<close>

lemma build1_key_of:
  "key_of (Meta build1) = build1_key"
  "key_of (Meta build1_registered) = build1_key"
  "key_of (Meta build1_deleting) = build1_key"
  by (simp_all add: key_of_def example_defs)

lemma build1_dkey:
  "(Namespace (Meta build1_deleting), SpecName (Spec build1_deleting)) = build1_key"
  "(fst build1_key, SpecName (Spec build1_registered)) = build1_key"
  "(fst build1_key, SpecName (Spec build1)) = build1_key"
  by (simp_all add: example_defs)

subsection \<open>An active record without the finalizer\<close>

text \<open>
  C1, as stated, fails. The scenario record is active and has no finalizer, and no
  derived resource exists; one call of \<open>Reconcile\<close> on a store whose calls all succeed
  persists the finalizer and, in that same call, creates the derived resource: the
  call log ends with the create.
\<close>

theorem Reconcile_creates_in_first_call_counterexample:
  "pipelineRuns cluster_created build1_key = Some build1 \<and>
   IsZero (DeletionTimestamp (Meta build1)) \<and>
   \<not> containsString (Finalizers (Meta build1)) example_finalizer \<and>
   tektonPipelineRuns cluster_created build1_key = None \<and>
   Reconcile example_finalizer no_faults build1_key cluster_created =
     ((Result_zero, None),
      \<lparr>pipelineRuns = [build1_key \<mapsto> build1_registered],
       tektonPipelineRuns = [build1_key \<mapsto> build1_derived],
       calls = [Call GetPipelineRun build1_key None,
                Call UpdatePipelineRun build1_key None,
                Call GetTektonPipelineRun build1_key (Some NotFound),
                Call CreateTektonPipelineRun build1_key None]\<rparr>)"
  by (simp add: run_defs example_defs cluster_defs)

text \<open>
  C1, amended. For every active record without the finalizer marker (stored under its
  own key, the fetch not failing), one call of \<open>Reconcile\<close> adds the marker at the end
  of the finalizer list and issues the update of the record before any derived-resource
  call: the fetch and the update are the first two store calls of the reconciliation,
  every call after them is a lookup or a create of the derived resource, and there is
  no call after an update that failed. When the update fails, \<open>Reconcile\<close> returns its
  error with the zero result and leaves both stores unchanged. When the update
  succeeds, the record is persisted with the marker, and the same call goes on to the
  derived resource: when none exists under the target name and the create does not
  fail, it creates it and returns without error.
\<close>

theorem Reconcile_registers_finalizer_first:
  assumes get: "f GetPipelineRun = None"
    and stored: "pipelineRuns c req = Some p" and key: "key_of (Meta p) = req"
    and active: "IsZero (DeletionTimestamp (Meta p))"
    and unmarked: "\<not> containsString (Finalizers (Meta p)) fin"
  shows "Finalizers (Meta (AddFinalizer p fin)) = Finalizers (Meta p) @ [fin] \<and>
         (\<exists>rest. calls (snd (Reconcile fin f req c)) =
            calls c @ [Call GetPipelineRun req None,
                       Call UpdatePipelineRun req (f UpdatePipelineRun)] @ rest \<and>
            (\<forall>x\<in>set rest. call_op x = GetTektonPipelineRun \<or>
                            call_op x = CreateTektonPipelineRun) \<and>
            (f UpdatePipelineRun \<noteq> None \<longrightarrow> rest = [])) \<and>
         (f UpdatePipelineRun = Some e \<longrightarrow>
            Reconcile fin f req c =
              ((Result_zero, Some e),
               c\<lparr>calls := calls c @ [Call GetPipelineRun req None,
                                     Call UpdatePipelineRun req (Some e)]\<rparr>)) \<and>
         (f UpdatePipelineRun = None \<longrightarrow>
            pipelineRuns (snd (Reconcile fin f req c)) =
              (pipelineRuns c)(req \<mapsto> AddFinalizer p fin)) \<and>
         (f UpdatePipelineRun = None \<and>
          tektonPipelineRuns c (fst req, SpecName (Spec p)) = None \<and>
          f CreateTektonPipelineRun = None \<longrightarrow>
            Reconcile fin f req c =
              ((Result_zero, None),
               c\<lparr>pipelineRuns := (pipelineRuns c)(req \<mapsto> AddFinalizer p fin),
                 tektonPipelineRuns := (tektonPipelineRuns c)
                   ((fst req, SpecName (Spec p)) \<mapsto> tektonPipelineRun (fst req) (Spec p)),
                 calls := calls c @
                   [Call GetPipelineRun req None,
                    Call UpdatePipelineRun req None,
                    Call GetTektonPipelineRun (fst req, SpecName (Spec p))
                      (answer f GetTektonPipelineRun (Some NotFound)),
                    Call CreateTektonPipelineRun (fst req, SpecName (Spec p)) None]\<rparr>))"
proof -
  let ?q = "AddFinalizer p fin"
  let ?c2 = "c\<lparr>pipelineRuns := (pipelineRuns c)(req \<mapsto> ?q),
               calls := calls c @ [Call GetPipelineRun req None,
                                   Call UpdatePipelineRun req None]\<rparr>"
  have failed: "Reconcile fin f req c =
      ((Result_zero, Some e'),
       c\<lparr>calls := calls c @ [Call GetPipelineRun req None,
                             Call UpdatePipelineRun req (Some e')]\<rparr>)"
    if "f UpdatePipelineRun = Some e'" for e'
    using that get stored key active unmarked
    by (simp add: Reconcile_def client_Get_found client_Update_fault key_of_AddFinalizer
          record_call_def Let_def)
  have step: "Reconcile fin f req c = Reconcile_third f req ?q ?c2"
    if "f UpdatePipelineRun = None"
    using that get stored key active unmarked
    by (simp add: Reconcile_def client_Get_found client_Update_ok key_of_AddFinalizer
          record_call_def Let_def)
  have runs: "pipelineRuns (snd (Reconcile fin f req c)) = (pipelineRuns c)(req \<mapsto> ?q)"
    if "f UpdatePipelineRun = None"
    by (simp add: step [OF that] Reconcile_third_snd pipelineRuns_reconcileTektonPipelineRun)
  have order: "\<exists>rest. calls (snd (Reconcile fin f req c)) =
      calls c @ [Call GetPipelineRun req None,
                 Call UpdatePipelineRun req (f UpdatePipelineRun)] @ rest \<and>
      (\<forall>x\<in>set rest. call_op x = GetTektonPipelineRun \<or> call_op x = CreateTektonPipelineRun) \<and>
      (f UpdatePipelineRun \<noteq> None \<longrightarrow> rest = [])"
  proof (cases "f UpdatePipelineRun")
    case None
    then show ?thesis
      using Reconcile_third_calls [of f req ?q ?c2] by (simp add: step [OF None])
  next
    case (Some e')
    then show ?thesis by (simp add: failed [OF Some])
  qed
  have creates: "Reconcile fin f req c =
      ((Result_zero, None),
       c\<lparr>pipelineRuns := (pipelineRuns c)(req \<mapsto> ?q),
         tektonPipelineRuns := (tektonPipelineRuns c)
           ((fst req, SpecName (Spec p)) \<mapsto> tektonPipelineRun (fst req) (Spec p)),
         calls := calls c @
           [Call GetPipelineRun req None,
            Call UpdatePipelineRun req None,
            Call GetTektonPipelineRun (fst req, SpecName (Spec p))
              (answer f GetTektonPipelineRun (Some NotFound)),
            Call CreateTektonPipelineRun (fst req, SpecName (Spec p)) None]\<rparr>)"
    if "f UpdatePipelineRun = None"
      and "tektonPipelineRuns c (fst req, SpecName (Spec p)) = None"
      and "f CreateTektonPipelineRun = None"
    using that
    by (simp add: step Reconcile_third_def reconcileTektonCrd_def Spec_AddFinalizer
          reconcileTektonPipelineRun_creates)
  show ?thesis
    using runs order creates failed AddFinalizer_adds [OF unmarked] by blast
qed

theorem Reconcile_registers_finalizer_first_witness:
  "no_faults GetPipelineRun = None \<and> update_conflict GetPipelineRun = None \<and>
   pipelineRuns cluster_created build1_key = Some build1 \<and>
   key_of (Meta build1) = build1_key \<and>
   IsZero (DeletionTimestamp (Meta build1)) \<and>
   \<not> containsString (Finalizers (Meta build1)) example_finalizer \<and>
   no_faults UpdatePipelineRun = None \<and>
   tektonPipelineRuns cluster_created (fst build1_key, SpecName (Spec build1)) = None \<and>
   no_faults CreateTektonPipelineRun = None \<and>
   update_conflict UpdatePipelineRun = Some Conflict \<and>
   pipelineRuns (snd (Reconcile example_finalizer no_faults build1_key cluster_created)) =
     [build1_key \<mapsto> build1_registered] \<and>
   tektonPipelineRuns (snd (Reconcile example_finalizer no_faults build1_key cluster_created)) =
     [build1_key \<mapsto> build1_derived] \<and>
   Reconcile example_finalizer update_conflict build1_key cluster_created =
     ((Result_zero, Some Conflict),
      \<lparr>pipelineRuns = [build1_key \<mapsto> build1], tektonPipelineRuns = Map.empty,
       calls = [Call GetPipelineRun build1_key None,
                Call UpdatePipelineRun build1_key (Some Conflict)]\<rparr>)"
proof -
  have h1: "no_faults GetPipelineRun = None" and h2: "no_faults UpdatePipelineRun = None"
    and h8: "no_faults CreateTektonPipelineRun = None"
    by (simp_all add: no_faults_def)
  have u1: "update_conflict GetPipelineRun = None"
    and u2: "update_conflict UpdatePipelineRun = Some Conflict"
    by (simp_all add: update_conflict_def no_faults_def)
  have h3: "pipelineRuns cluster_created build1_key = Some build1"
    by (simp add: cluster_created_def)
  have h4: "key_of (Meta build1) = build1_key"
    by (rule build1_key_of)
  have h5: "IsZero (DeletionTimestamp (Meta build1))"
    by (simp add: build1_def)
  have h6: "\<not> containsString (Finalizers (Meta build1)) example_finalizer"
    by (simp add: build1_def)
  have h7: "tektonPipelineRuns cluster_created (fst build1_key, SpecName (Spec build1)) = None"
    by (simp add: cluster_created_def)
  have a: "AddFinalizer build1 example_finalizer = build1_registered"
    by (simp add: AddFinalizer_def build1_registered_def build1_def)
  have b: "tektonPipelineRun (fst build1_key) (Spec build1) = build1_derived"
    by (simp add: tektonPipelineRun_def build1_derived_def build1_def build1_key_def)
  have k: "(fst build1_key, SpecName (Spec build1)) = build1_key"
    by (rule build1_dkey)
  show ?thesis
    using h1 h2 h3 h4 h5 h6 h7 h8 u1 u2
      Reconcile_registers_finalizer_first
        [where f = no_faults and fin = example_finalizer and e = Conflict,
         OF h1 h3 h4 h5 h6]
      Reconcile_registers_finalizer_first
        [where f = update_conflict and fin = example_finalizer and e = Conflict,
         OF u1 h3 h4 h5 h6]
    by (simp add: a b k cluster_created_def)
qed

subsection \<open>A record being deleted, with the finalizer\<close>

text \<open>
  C2 does not hold of the code. The scenario record is in the deleting state with the
  finalizer marker present, and its derived resource exists; the cleanup lookup fails
  with a timeout. \<open>Reconcile\<close> returns the zero result and no error; its calls are the
  fetch, the failed lookup and the update: no delete is issued, the derived resource is
  still in the store, and the record is persisted without the marker. The marker is
  released although cleanup did not delete the derived resource that is present.
\<close>

theorem cleanup_skipped_finalizer_released:
  "pipelineRuns cluster_deleting build1_key = Some build1_deleting \<and>
   \<not> IsZero (DeletionTimestamp (Meta build1_deleting)) \<and>
   containsString (Finalizers (Meta build1_deleting)) example_finalizer \<and>
   tektonPipelineRuns cluster_deleting build1_key = Some build1_derived \<and>
   fst (Reconcile example_finalizer lookup_timeout build1_key cluster_deleting) =
     (Result_zero, None) \<and>
   calls (snd (Reconcile example_finalizer lookup_timeout build1_key cluster_deleting)) =
     [Call GetPipelineRun build1_key None,
      Call TknGet build1_key (Some (Other ''timeout'')),
      Call UpdatePipelineRun build1_key None] \<and>
   tektonPipelineRuns
     (snd (Reconcile example_finalizer lookup_timeout build1_key cluster_deleting)) build1_key =
     Some build1_derived \<and>
   pipelineRuns
     (snd (Reconcile example_finalizer lookup_timeout build1_key cluster_deleting)) build1_key =
     Some build1_released \<and>
   \<not> containsString (Finalizers (Meta build1_released)) example_finalizer"
  by (simp add: run_defs example_defs cluster_defs)

text \<open>
  When the cleanup lookup answers, the order is kept. For a record in the deleting
  state with the finalizer marker (stored under its own key; fetch, cleanup lookup,
  delete and update not failing), \<open>Reconcile\<close> returns the zero result and no error,
  and leaves the store with the derived resource gone and the record persisted
  without the marker. The call log gives the order: the fetch, the cleanup lookup, the
  delete (only if the derived resource was there), and only then the update that
  removes the marker. A second \<open>Reconcile\<close> on the resulting store returns the zero
  result and no error and changes neither store; its only call is the fetch.
\<close>

lemma Reconcile_deleting_cleans_up_then_releases:
  assumes get: "f GetPipelineRun = None" and tget: "f TknGet = None"
    and tdel: "f TknDelete = None" and upd: "f UpdatePipelineRun = None"
    and stored: "pipelineRuns c req = Some p" and key: "key_of (Meta p) = req"
    and deleting: "\<not> IsZero (DeletionTimestamp (Meta p))"
    and marked: "containsString (Finalizers (Meta p)) fin"
    and get2: "g GetPipelineRun = None"
  shows "Reconcile fin f req c =
           ((Result_zero, None),
            c\<lparr>pipelineRuns := (pipelineRuns c)(req \<mapsto> RemoveFinalizer p fin),
              tektonPipelineRuns :=
                (tektonPipelineRuns c)((Namespace (Meta p), SpecName (Spec p)) := None),
              calls := calls c @ Call GetPipelineRun req None #
                (case tektonPipelineRuns c (Namespace (Meta p), SpecName (Spec p)) of
                   None \<Rightarrow> [Call TknGet (Namespace (Meta p), SpecName (Spec p)) (Some NotFound)]
                 | Some t \<Rightarrow> [Call TknGet (Namespace (Meta p), SpecName (Spec p)) None,
                              Call TknDelete (Namespace (Meta p), SpecName (Spec p)) None]) @
                [Call UpdatePipelineRun req None]\<rparr>) \<and>
         \<not> containsString (Finalizers (Meta (RemoveFinalizer p fin))) fin \<and>
         Reconcile fin g req (snd (Reconcile fin f req c)) =
           ((Result_zero, None),
            (snd (Reconcile fin f req c))
              \<lparr>calls := calls (snd (Reconcile fin f req c)) @ [Call GetPipelineRun req None]\<rparr>)"
proof -
  let ?dkey = "(Namespace (Meta p), SpecName (Spec p))"
  let ?c' = "c\<lparr>pipelineRuns := (pipelineRuns c)(req \<mapsto> RemoveFinalizer p fin),
              tektonPipelineRuns := (tektonPipelineRuns c)(?dkey := None),
              calls := calls c @ Call GetPipelineRun req None #
                (case tektonPipelineRuns c ?dkey of
                   None \<Rightarrow> [Call TknGet ?dkey (Some NotFound)]
                 | Some t \<Rightarrow> [Call TknGet ?dkey None, Call TknDelete ?dkey None]) @
                [Call UpdatePipelineRun req None]\<rparr>"
  have first: "Reconcile fin f req c = ((Result_zero, None), ?c')"
  proof (cases "tektonPipelineRuns c ?dkey")
    case None
    then have "(tektonPipelineRuns c)(?dkey := None) = tektonPipelineRuns c"
      by (rule fun_upd_idem)
    with None show ?thesis
      using get tget upd stored key deleting marked
      by (simp add: Reconcile_def client_Get_found deleteExternalResources_absent
            client_Update_ok key_of_RemoveFinalizer record_call_def answer_def Let_def)
  next
    case (Some t)
    then show ?thesis
      using get tget tdel upd stored key deleting marked
      by (simp add: Reconcile_def client_Get_found deleteExternalResources_deleted
            client_Update_ok key_of_RemoveFinalizer record_call_def Let_def)
  qed
  have second: "Reconcile fin g req ?c' =
      ((Result_zero, None), ?c'\<lparr>calls := calls ?c' @ [Call GetPipelineRun req None]\<rparr>)"
    using get2 deleting
    by (simp add: Reconcile_def client_Get_found [where obj = "RemoveFinalizer p fin"]
          RemoveFinalizer_removes DeletionTimestamp_RemoveFinalizer record_call_def)
  show ?thesis
    using first second RemoveFinalizer_removes [of p fin] by simp
qed

lemma Reconcile_deleting_cleans_up_then_releases_example:
  "no_faults GetPipelineRun = None \<and> no_faults TknGet = None \<and>
   no_faults TknDelete = None \<and> no_faults UpdatePipelineRun = None \<and>
   pipelineRuns cluster_deleting build1_key = Some build1_deleting \<and>
   key_of (Meta build1_deleting) = build1_key \<and>
   \<not> IsZero (DeletionTimestamp (Meta build1_deleting)) \<and>
   containsString (Finalizers (Meta build1_deleting)) example_finalizer \<and>
   Reconcile example_finalizer no_faults build1_key cluster_deleting =
     ((Result_zero, None),
      \<lparr>pipelineRuns = [build1_key \<mapsto> build1_released],
       tektonPipelineRuns = Map.empty,
       calls = [Call GetPipelineRun build1_key None, Call TknGet build1_key None,
                Call TknDelete build1_key None, Call UpdatePipelineRun build1_key None]\<rparr>)"
proof -
  have h1: "no_faults GetPipelineRun = None" and h2: "no_faults TknGet = None"
    and h3: "no_faults TknDelete = None" and h4: "no_faults UpdatePipelineRun = None"
    by (simp_all add: no_faults_def)
  have h5: "pipelineRuns cluster_deleting build1_key = Some build1_deleting"
    by (simp add: cluster_deleting_def)
  have h6: "key_of (Meta build1_deleting) = build1_key"
    by (rule build1_key_of)
  have h7: "\<not> IsZero (DeletionTimestamp (Meta build1_deleting))"
    by (simp add: example_defs)
  have h8: "containsString (Finalizers (Meta build1_deleting)) example_finalizer"
    by (simp add: example_defs)
  have r: "RemoveFinalizer build1_deleting example_finalizer = build1_released"
    by (simp add: RemoveFinalizer_def build1_released_def build1_deleting_def)
  show ?thesis
    using h1 h2 h3 h4 h5 h6 h7 h8
      Reconcile_deleting_cleans_up_then_releases
        [where f = no_faults and g = no_faults and fin = example_finalizer,
         OF h1 h2 h3 h4 h5 h6 h7 h8 h1]
    by (simp add: r build1_dkey cluster_deleting_def)
qed

subsection \<open>An active record with the finalizer and no derived resource\<close>

text \<open>
  C3. For every active record carrying the finalizer marker for which no derived
  resource exists under the target name (fetch and create not failing), \<open>Reconcile\<close>
  returns the zero result and no error and creates exactly one derived resource: the
  call log has one create, and the stores differ from before only at the target key
  of the derived store. The created resource has the record's \<^verbatim>\<open>Spec.Name\<close> as its
  name, the request's namespace, and a pipeline reference whose name is the record's
  \<^verbatim>\<open>Spec.PipelineRef\<close>; its kind and API version are constants, and its deletion
  timestamp and finalizers are empty: nothing else of the record is copied.
\<close>

theorem Reconcile_creates_derived:
  assumes get: "f GetPipelineRun = None" and create: "f CreateTektonPipelineRun = None"
    and stored: "pipelineRuns c req = Some p"
    and active: "IsZero (DeletionTimestamp (Meta p))"
    and marked: "containsString (Finalizers (Meta p)) fin"
    and absent: "tektonPipelineRuns c (fst req, SpecName (Spec p)) = None"
  shows "Reconcile fin f req c =
           ((Result_zero, None),
            c\<lparr>tektonPipelineRuns := (tektonPipelineRuns c)
                ((fst req, SpecName (Spec p)) \<mapsto>
                   \<lparr>TknTypeMeta = \<lparr>Kind = ''PipelineRun'', APIVersion = ''tekton.dev/v1beta1''\<rparr>,
                    TknMeta = \<lparr>Name = SpecName (Spec p), Namespace = fst req,
                               DeletionTimestamp = None, Finalizers = []\<rparr>,
                    TknSpec = \<lparr>TknPipelineRef = Some \<lparr>RefName = PipelineRef (Spec p)\<rparr>\<rparr>\<rparr>),
              calls := calls c @
                [Call GetPipelineRun req None,
                 Call GetTektonPipelineRun (fst req, SpecName (Spec p))
                   (answer f GetTektonPipelineRun (Some NotFound)),
                 Call CreateTektonPipelineRun (fst req, SpecName (Spec p)) None]\<rparr>)"
  using assms
  by (simp add: Reconcile_def Reconcile_third_def reconcileTektonCrd_def client_Get_found
        reconcileTektonPipelineRun_creates record_call_def tektonPipelineRun_def)

theorem Reconcile_creates_derived_witness:
  "no_faults GetPipelineRun = None \<and> no_faults CreateTektonPipelineRun = None \<and>
   pipelineRuns cluster_registered build1_key = Some build1_registered \<and>
   IsZero (DeletionTimestamp (Meta build1_registered)) \<and>
   containsString (Finalizers (Meta build1_registered)) example_finalizer \<and>
   tektonPipelineRuns cluster_registered (fst build1_key, SpecName (Spec build1_registered)) = None \<and>
   Reconcile example_finalizer no_faults build1_key cluster_registered =
     ((Result_zero, None),
      \<lparr>pipelineRuns = [build1_key \<mapsto> build1_registered],
       tektonPipelineRuns = [build1_key \<mapsto> build1_derived],
       calls = [Call GetPipelineRun build1_key None,
                Call GetTektonPipelineRun build1_key (Some NotFound),
                Call CreateTektonPipelineRun build1_key None]\<rparr>)"
proof -
  have h1: "no_faults GetPipelineRun = None" and h2: "no_faults CreateTektonPipelineRun = None"
    by (simp_all add: no_faults_def)
  have h3: "pipelineRuns cluster_registered build1_key = Some build1_registered"
    by (simp add: cluster_registered_def)
  have h4: "IsZero (DeletionTimestamp (Meta build1_registered))"
    by (simp add: example_defs)
  have h5: "containsString (Finalizers (Meta build1_registered)) example_finalizer"
    by (simp add: example_defs)
  have h6: "tektonPipelineRuns cluster_registered
              (fst build1_key, SpecName (Spec build1_registered)) = None"
    by (simp add: cluster_registered_def)
  have d: "\<lparr>TknTypeMeta = \<lparr>Kind = ''PipelineRun'', APIVersion = ''tekton.dev/v1beta1''\<rparr>,
           TknMeta = \<lparr>Name = SpecName (Spec build1_registered), Namespace = fst build1_key,
                      DeletionTimestamp = None, Finalizers = []\<rparr>,
           TknSpec = \<lparr>TknPipelineRef = Some \<lparr>RefName = PipelineRef (Spec build1_registered)\<rparr>\<rparr>\<rparr>
         = build1_derived"
    by (simp add: example_defs)
  show ?thesis
    using h1 h2 h3 h4 h5 h6 Reconcile_creates_derived
        [where f = no_faults and fin = example_finalizer, OF h1 h2 h3 h4 h5 h6]
    by (simp add: d build1_dkey cluster_registered_def answer_def no_faults_def)
qed

subsection \<open>An active record whose derived resource exists\<close>

text \<open>
  C4, as stated, fails. The scenario record is active, it has no finalizer, and a
  Tekton PipelineRun with its target name exists already; \<open>Reconcile\<close> persists the
  record with the finalizer added, which is a store mutation.
\<close>

theorem Reconcile_collision_counterexample:
  "pipelineRuns cluster_collision build1_key = Some build1 \<and>
   IsZero (DeletionTimestamp (Meta build1)) \<and>
   tektonPipelineRuns cluster_collision build1_key = Some build1_derived \<and>
   Reconcile example_finalizer no_faults build1_key cluster_collision =
     ((Result_zero, None),
      \<lparr>pipelineRuns = [build1_key \<mapsto> build1_registered],
       tektonPipelineRuns = [build1_key \<mapsto> build1_derived],
       calls = [Call GetPipelineRun build1_key None,
                Call UpdatePipelineRun build1_key None,
                Call GetTektonPipelineRun build1_key None]\<rparr>) \<and>
   build1_registered \<noteq> build1"
  by (simp add: run_defs example_defs cluster_defs)

text \<open>
  C4, amended. For every active record that carries the finalizer marker and whose
  derived resource exists already (fetch and lookup not failing), \<open>Reconcile\<close> returns
  the zero result and no error and performs no store mutation: its only calls are the
  fetch and the lookup, and both stores are as before; the derived resource is not
  updated. Reconciling the resulting store again does the same, so repeating
  \<open>Reconcile\<close> on an unchanged state of this kind is idempotent.
\<close>

theorem Reconcile_derived_exists_no_mutation:
  assumes get: "f GetPipelineRun = None" and tget: "f GetTektonPipelineRun = None"
    and stored: "pipelineRuns c req = Some p"
    and active: "IsZero (DeletionTimestamp (Meta p))"
    and marked: "containsString (Finalizers (Meta p)) fin"
    and present: "tektonPipelineRuns c (fst req, SpecName (Spec p)) = Some t"
  shows "Reconcile fin f req c =
           ((Result_zero, None),
            c\<lparr>calls := calls c @
                [Call GetPipelineRun req None,
                 Call GetTektonPipelineRun (fst req, SpecName (Spec p)) None]\<rparr>) \<and>
         Reconcile fin f req (snd (Reconcile fin f req c)) =
           ((Result_zero, None),
            c\<lparr>calls := calls c @
                [Call GetPipelineRun req None,
                 Call GetTektonPipelineRun (fst req, SpecName (Spec p)) None,
                 Call GetPipelineRun req None,
                 Call GetTektonPipelineRun (fst req, SpecName (Spec p)) None]\<rparr>)"
proof -
  have once: "Reconcile fin f req c' =
           ((Result_zero, None),
            c'\<lparr>calls := calls c' @
                [Call GetPipelineRun req None,
                 Call GetTektonPipelineRun (fst req, SpecName (Spec p)) None]\<rparr>)"
    if "pipelineRuns c' = pipelineRuns c" and "tektonPipelineRuns c' = tektonPipelineRuns c"
    for c'
    using that assms
    by (simp add: Reconcile_def Reconcile_third_def reconcileTektonCrd_def client_Get_found
          reconcileTektonPipelineRun_exists record_call_def)
  show ?thesis
    by (simp add: once)
qed

theorem Reconcile_derived_exists_no_mutation_witness:
  "no_faults GetPipelineRun = None \<and> no_faults GetTektonPipelineRun = None \<and>
   pipelineRuns cluster_running build1_key = Some build1_registered \<and>
   IsZero (DeletionTimestamp (Meta build1_registered)) \<and>
   containsString (Finalizers (Meta build1_registered)) example_finalizer \<and>
   tektonPipelineRuns cluster_running (fst build1_key, SpecName (Spec build1_registered)) =
     Some build1_derived \<and>
   Reconcile example_finalizer no_faults build1_key cluster_running =
     ((Result_zero, None),
      \<lparr>pipelineRuns = [build1_key \<mapsto> build1_registered],
       tektonPipelineRuns = [build1_key \<mapsto> build1_derived],
       calls = [Call GetPipelineRun build1_key None,
                Call GetTektonPipelineRun build1_key None]\<rparr>)"
proof -
  have h1: "no_faults GetPipelineRun = None" and h2: "no_faults GetTektonPipelineRun = None"
    by (simp_all add: no_faults_def)
  have h3: "pipelineRuns cluster_running build1_key = Some build1_registered"
    by (simp add: cluster_running_def)
  have h4: "IsZero (DeletionTimestamp (Meta build1_registered))"
    by (simp add: example_defs)
  have h5: "containsString (Finalizers (Meta build1_registered)) example_finalizer"
    by (simp add: example_defs)
  have h6: "tektonPipelineRuns cluster_running
              (fst build1_key, SpecName (Spec build1_registered)) = Some build1_derived"
    by (simp add: cluster_running_def build1_dkey)
  show ?thesis
    using h1 h2 h3 h4 h5 h6 Reconcile_derived_exists_no_mutation
        [where f = no_faults and fin = example_finalizer, OF h1 h2 h3 h4 h5 h6]
    by (simp add: build1_dkey cluster_running_def)
qed

subsection \<open>The delete fails during cleanup\<close>

text \<open>
  C5. For every record in the deleting state with the finalizer marker whose derived
  resource is found, if the delete call fails with an error, \<open>Reconcile\<close> returns that
  error with the zero result, issues no update, and leaves both stores as they were:
  the record and its finalizer marker are unchanged. A later \<open>Reconcile\<close> on the
  resulting store (fetch and lookup not failing) issues the delete call again.
\<close>

theorem Reconcile_delete_failure_keeps_finalizer:
  assumes get: "f GetPipelineRun = None" and tget: "f TknGet = None"
    and fail: "f TknDelete = Some e"
    and stored: "pipelineRuns c req = Some p"
    and deleting: "\<not> IsZero (DeletionTimestamp (Meta p))"
    and marked: "containsString (Finalizers (Meta p)) fin"
    and present: "tektonPipelineRuns c (Namespace (Meta p), SpecName (Spec p)) = Some t"
    and get2: "g GetPipelineRun = None" and tget2: "g TknGet = None"
  shows "Reconcile fin f req c =
           ((Result_zero, Some e),
            c\<lparr>calls := calls c @
                [Call GetPipelineRun req None,
                 Call TknGet (Namespace (Meta p), SpecName (Spec p)) None,
                 Call TknDelete (Namespace (Meta p), SpecName (Spec p)) (Some e)]\<rparr>) \<and>
         Call TknDelete (Namespace (Meta p), SpecName (Spec p)) (g TknDelete)
           \<in> set (drop (length (calls c) + 3)
                  (calls (snd (Reconcile fin g req (snd (Reconcile fin f req c))))))"
proof -
  let ?dkey = "(Namespace (Meta p), SpecName (Spec p))"
  let ?c1 = "c\<lparr>calls := calls c @
                [Call GetPipelineRun req None, Call TknGet ?dkey None,
                 Call TknDelete ?dkey (Some e)]\<rparr>"
  have first: "Reconcile fin f req c = ((Result_zero, Some e), ?c1)"
    using assms
    by (simp add: Reconcile_def client_Get_found deleteExternalResources_delete_fault
          record_call_def)
  have again: "Call TknDelete ?dkey (g TknDelete)
      \<in> set (drop (length (calls c) + 3) (calls (snd (Reconcile fin g req ?c1))))"
  proof (cases "g TknDelete")
    case None
    then show ?thesis
      using get2 tget2 stored deleting marked present
      by (simp add: Reconcile_def client_Get_found deleteExternalResources_deleted
            client_Update_def answer_def record_call_def Let_def
            split: option.splits)
  next
    case (Some e')
    then show ?thesis
      using get2 tget2 stored deleting marked present
      by (simp add: Reconcile_def client_Get_found deleteExternalResources_delete_fault
            record_call_def)
  qed
  show ?thesis using first again by simp
qed

theorem Reconcile_delete_failure_keeps_finalizer_witness:
  "delete_timeout GetPipelineRun = None \<and> delete_timeout TknGet = None \<and>
   delete_timeout TknDelete = Some (Other ''timeout'') \<and>
   pipelineRuns cluster_deleting build1_key = Some build1_deleting \<and>
   \<not> IsZero (DeletionTimestamp (Meta build1_deleting)) \<and>
   containsString (Finalizers (Meta build1_deleting)) example_finalizer \<and>
   tektonPipelineRuns cluster_deleting
     (Namespace (Meta build1_deleting), SpecName (Spec build1_deleting)) = Some build1_derived \<and>
   Reconcile example_finalizer delete_timeout build1_key cluster_deleting =
     ((Result_zero, Some (Other ''timeout'')),
      \<lparr>pipelineRuns = [build1_key \<mapsto> build1_deleting],
       tektonPipelineRuns = [build1_key \<mapsto> build1_derived],
       calls = [Call GetPipelineRun build1_key None, Call TknGet build1_key None,
                Call TknDelete build1_key (Some (Other ''timeout''))]\<rparr>)"
proof -
  have h1: "delete_timeout GetPipelineRun = None" and h2: "delete_timeout TknGet = None"
    and h3: "delete_timeout TknDelete = Some (Other ''timeout'')"
    by (simp_all add: delete_timeout_def no_faults_def)
  have h4: "pipelineRuns cluster_deleting build1_key = Some build1_deleting"
    by (simp add: cluster_deleting_def)
  have h5: "\<not> IsZero (DeletionTimestamp (Meta build1_deleting))"
    by (simp add: example_defs)
  have h6: "containsString (Finalizers (Meta build1_deleting)) example_finalizer"
    by (simp add: example_defs)
  have h7: "tektonPipelineRuns cluster_deleting
      (Namespace (Meta build1_deleting), SpecName (Spec build1_deleting)) = Some build1_derived"
    by (simp add: cluster_deleting_def build1_dkey)
  have g1: "no_faults GetPipelineRun = None" and g2: "no_faults TknGet = None"
    by (simp_all add: no_faults_def)
  show ?thesis
    using h1 h2 h3 h4 h5 h6 h7
      Reconcile_delete_failure_keeps_finalizer
        [where f = delete_timeout and g = no_faults and fin = example_finalizer,
         OF h1 h2 h3 h4 h5 h6 h7 g1 g2]
    by (simp add: build1_dkey cluster_deleting_def)
qed

subsection \<open>A record being deleted whose derived resource is gone\<close>

text \<open>
  C6. For every record in the deleting state with the finalizer marker present whose
  derived resource is absent (stored under its own key, fetch and update not
  failing), cleanup succeeds whatever the lookup answers, and \<open>Reconcile\<close> returns the
  zero result and no error and persists the record without the marker.
\<close>

theorem Reconcile_deleting_derived_absent:
  assumes get: "f GetPipelineRun = None" and upd: "f UpdatePipelineRun = None"
    and stored: "pipelineRuns c req = Some p" and key: "key_of (Meta p) = req"
    and deleting: "\<not> IsZero (DeletionTimestamp (Meta p))"
    and marked: "containsString (Finalizers (Meta p)) fin"
    and absent: "tektonPipelineRuns c (Namespace (Meta p), SpecName (Spec p)) = None"
  shows "Reconcile fin f req c =
           ((Result_zero, None),
            c\<lparr>pipelineRuns := (pipelineRuns c)(req \<mapsto> RemoveFinalizer p fin),
              calls := calls c @
                [Call GetPipelineRun req None,
                 Call TknGet (Namespace (Meta p), SpecName (Spec p))
                   (answer f TknGet (Some NotFound)),
                 Call UpdatePipelineRun req None]\<rparr>) \<and>
         \<not> containsString (Finalizers (Meta (RemoveFinalizer p fin))) fin"
  using assms
  by (simp add: Reconcile_def client_Get_found deleteExternalResources_absent
        client_Update_ok key_of_RemoveFinalizer RemoveFinalizer_removes record_call_def Let_def)

theorem Reconcile_deleting_derived_absent_witness:
  "no_faults GetPipelineRun = None \<and> no_faults UpdatePipelineRun = None \<and>
   pipelineRuns cluster_deleting_orphan build1_key = Some build1_deleting \<and>
   key_of (Meta build1_deleting) = build1_key \<and>
   \<not> IsZero (DeletionTimestamp (Meta build1_deleting)) \<and>
   containsString (Finalizers (Meta build1_deleting)) example_finalizer \<and>
   tektonPipelineRuns cluster_deleting_orphan
     (Namespace (Meta build1_deleting), SpecName (Spec build1_deleting)) = None \<and>
   Reconcile example_finalizer no_faults build1_key cluster_deleting_orphan =
     ((Result_zero, None),
      \<lparr>pipelineRuns = [build1_key \<mapsto> build1_released],
       tektonPipelineRuns = Map.empty,
       calls = [Call GetPipelineRun build1_key None,
                Call TknGet build1_key (Some NotFound),
                Call UpdatePipelineRun build1_key None]\<rparr>)"
proof -
  have h1: "no_faults GetPipelineRun = None" and h2: "no_faults UpdatePipelineRun = None"
    by (simp_all add: no_faults_def)
  have h3: "pipelineRuns cluster_deleting_orphan build1_key = Some build1_deleting"
    by (simp add: cluster_deleting_orphan_def)
  have h4: "key_of (Meta build1_deleting) = build1_key"
    by (rule build1_key_of)
  have h5: "\<not> IsZero (DeletionTimestamp (Meta build1_deleting))"
    by (simp add: example_defs)
  have h6: "containsString (Finalizers (Meta build1_deleting)) example_finalizer"
    by (simp add: example_defs)
  have h7: "tektonPipelineRuns cluster_deleting_orphan
      (Namespace (Meta build1_deleting), SpecName (Spec build1_deleting)) = None"
    by (simp add: cluster_deleting_orphan_def)
  have r: "RemoveFinalizer build1_deleting example_finalizer = build1_released"
    by (simp add: RemoveFinalizer_def build1_released_def build1_deleting_def)
  show ?thesis
    using h1 h2 h3 h4 h5 h6 h7
      Reconcile_deleting_derived_absent
        [where f = no_faults and fin = example_finalizer, OF h1 h2 h3 h4 h5 h6 h7]
    by (simp add: r build1_dkey cluster_deleting_orphan_def answer_def no_faults_def)
qed

subsection \<open>The record is gone\<close>

text \<open>
  C7. For every key whose declarative record is not in the store (the fetch answers
  NotFound), \<open>Reconcile\<close> returns the zero result and no error, and it performs no
  mutation: both stores are as before, and the only call made is the fetch.
\<close>

theorem Reconcile_record_gone:
  assumes "pipelineRuns c req = None" and "f GetPipelineRun = None"
  shows "Reconcile fin f req c =
           ((Result_zero, None),
            c\<lparr>calls := calls c @ [Call GetPipelineRun req (Some NotFound)]\<rparr>)"
  using assms by (simp add: Reconcile_def client_Get_absent record_call_def)

theorem Reconcile_record_gone_witness:
  "pipelineRuns empty_cluster build1_key = None \<and> no_faults GetPipelineRun = None \<and>
   Reconcile example_finalizer no_faults build1_key empty_cluster =
     ((Result_zero, None),
      \<lparr>pipelineRuns = Map.empty, tektonPipelineRuns = Map.empty,
       calls = [Call GetPipelineRun (''ci'', ''build-1'') (Some NotFound)]\<rparr>)"
  using Reconcile_record_gone [of empty_cluster build1_key no_faults example_finalizer]
  by (simp add: example_defs)

subsection \<open>Errors of the derived-resource lookups\<close>

text \<open>
  C8 does not hold of the code. The scenario record is being deleted, it carries the
  finalizer, and its derived resource exists; the cleanup lookup fails with a timeout,
  which is not NotFound. \<open>Reconcile\<close> returns the zero result and no error: the
  timeout is swallowed, the delete is never issued, the finalizer is removed and
  persisted, and the derived resource is still in the store.
\<close>

theorem cleanup_lookup_failure_swallowed:
  "Reconcile example_finalizer lookup_timeout build1_key cluster_deleting =
     ((Result_zero, None),
      \<lparr>pipelineRuns = [build1_key \<mapsto> build1_released],
       tektonPipelineRuns = [build1_key \<mapsto> build1_derived],
       calls = [Call GetPipelineRun build1_key None,
                Call TknGet build1_key (Some (Other ''timeout'')),
                Call UpdatePipelineRun build1_key None]\<rparr>)"
  by (simp add: run_defs example_defs cluster_defs)

text \<open>
  The lookup before creation swallows a failure in the same way: with the finalizer
  registered and no derived resource, a timeout of the lookup is followed by a
  successful create, and \<open>Reconcile\<close> returns no error.
\<close>

lemma creation_lookup_failure_swallowed:
  "Reconcile example_finalizer creation_lookup_timeout build1_key cluster_registered =
     ((Result_zero, None),
      \<lparr>pipelineRuns = [build1_key \<mapsto> build1_registered],
       tektonPipelineRuns = [build1_key \<mapsto> build1_derived],
       calls = [Call GetPipelineRun build1_key None,
                Call GetTektonPipelineRun build1_key (Some (Other ''timeout'')),
                Call CreateTektonPipelineRun build1_key None]\<rparr>)"
  by (simp add: run_defs example_defs cluster_defs)

subsection \<open>A conflict on the update\<close>

lemma Reconcile_conflict_path:
  assumes stored: "pipelineRuns c req = Some p" and key: "key_of (Meta p) = req"
    and conflict: "Call UpdatePipelineRun k (Some Conflict)
        \<in> set (drop (length (calls c)) (calls (snd (Reconcile fin f req c))))"
  shows "f GetPipelineRun = None \<and> f UpdatePipelineRun = Some Conflict \<and>
         (if IsZero (DeletionTimestamp (Meta p))
          then \<not> containsString (Finalizers (Meta p)) fin
          else containsString (Finalizers (Meta p)) fin \<and>
               fst (deleteExternalResources f p (record_call GetPipelineRun req None c)) = None)"
proof -
  let ?c1 = "record_call GetPipelineRun req None c"
  let ?U = "Call UpdatePipelineRun k (Some Conflict)"
  have get: "f GetPipelineRun = None"
  proof (cases "f GetPipelineRun")
    case (Some e)
    with conflict show ?thesis
      by (simp add: Reconcile_def client_Get_fault record_call_def)
  qed simp
  then have found: "client_Get f req c = (Inr p, ?c1)"
    using stored by (simp add: client_Get_found)
  show ?thesis
  proof (cases "IsZero (DeletionTimestamp (Meta p))")
    case active: True
    show ?thesis
    proof (cases "containsString (Finalizers (Meta p)) fin")
      case True
      obtain r where r: "calls (snd (Reconcile_third f req p ?c1)) = calls ?c1 @ r"
        "\<forall>x\<in>set r. call_op x = GetTektonPipelineRun \<or> call_op x = CreateTektonPipelineRun"
        using Reconcile_third_calls by blast
      have "Reconcile fin f req c = Reconcile_third f req p ?c1"
        using found active True by (simp add: Reconcile_def)
      with conflict r(1) have "?U \<in> set r"
        by (simp add: record_call_def)
      with r(2) show ?thesis by fastforce
    next
      case unmarked: False
      show ?thesis
      proof (cases "f UpdatePipelineRun")
        case None
        let ?q = "AddFinalizer p fin"
        let ?c2 = "record_call UpdatePipelineRun req None
                     (?c1\<lparr>pipelineRuns := (pipelineRuns ?c1)(req \<mapsto> ?q)\<rparr>)"
        have upd: "client_Update f ?q ?c1 = (None, ?c2)"
          using None stored key
          by (simp add: client_Update_ok key_of_AddFinalizer record_call_simps)
        obtain r where r: "calls (snd (Reconcile_third f req ?q ?c2)) = calls ?c2 @ r"
          "\<forall>x\<in>set r. call_op x = GetTektonPipelineRun \<or> call_op x = CreateTektonPipelineRun"
          using Reconcile_third_calls by blast
        have "Reconcile fin f req c = Reconcile_third f req ?q ?c2"
          using found active unmarked upd by (simp add: Reconcile_def Let_def)
        with conflict r(1) have "?U \<in> set r"
          by (simp add: record_call_def)
        with r(2) show ?thesis by fastforce
      next
        case (Some e)
        then have "Reconcile fin f req c =
            ((Result_zero, Some e),
             record_call UpdatePipelineRun (key_of (Meta (AddFinalizer p fin))) (Some e) ?c1)"
          using found active unmarked
          by (simp add: Reconcile_def Let_def client_Update_fault)
        with conflict have "e = Conflict"
          by (simp add: record_call_def)
        with Some get active unmarked show ?thesis by simp
      qed
    qed
  next
    case deleting: False
    show ?thesis
    proof (cases "containsString (Finalizers (Meta p)) fin")
      case False
      then have "Reconcile fin f req c = ((Result_zero, None), ?c1)"
        using found deleting by (simp add: Reconcile_def)
      with conflict show ?thesis
        by (simp add: record_call_def)
    next
      case marked: True
      obtain d c2 where del: "deleteExternalResources f p ?c1 = (d, c2)"
        by (cases "deleteExternalResources f p ?c1")
      obtain r where r: "calls c2 = calls ?c1 @ r"
        "\<forall>x\<in>set r. call_op x = TknGet \<or> call_op x = TknDelete"
        using calls_deleteExternalResources [of f p ?c1] del by auto
      have runs: "pipelineRuns c2 = pipelineRuns c"
        using pipelineRuns_deleteExternalResources [of f p ?c1] del
        by (simp add: record_call_simps)
      show ?thesis
      proof (cases d)
        case (Some err)
        then have "Reconcile fin f req c = ((Result_zero, Some err), c2)"
          using found deleting marked del by (simp add: Reconcile_def)
        with conflict r(1) have "?U \<in> set r"
          by (simp add: record_call_def)
        with r(2) show ?thesis by fastforce
      next
        case None
        let ?q = "RemoveFinalizer p fin"
        show ?thesis
        proof (cases "f UpdatePipelineRun")
          case no_fault: None
          have "client_Update f ?q c2 =
              (None, record_call UpdatePipelineRun req None
                       (c2\<lparr>pipelineRuns := (pipelineRuns c2)(req \<mapsto> ?q)\<rparr>))"
            using no_fault stored key runs
            by (simp add: client_Update_ok key_of_RemoveFinalizer)
          then have "calls (snd (Reconcile fin f req c)) =
              calls ?c1 @ r @ [Call UpdatePipelineRun req None]"
            using found deleting marked del None r(1)
            by (simp add: Reconcile_def Let_def record_call_def)
          with conflict have "?U \<in> set r"
            by (simp add: record_call_def)
          with r(2) show ?thesis by fastforce
        next
          case (Some e)
          then have "calls (snd (Reconcile fin f req c)) =
              calls ?c1 @ r @ [Call UpdatePipelineRun (key_of (Meta ?q)) (Some e)]"
            using found deleting marked del None r(1)
            by (simp add: Reconcile_def Let_def client_Update_fault record_call_def)
          with conflict have "?U \<in> set r \<or> e = Conflict"
            by (auto simp add: record_call_def)
          with r(2) have "e = Conflict" by fastforce
          with Some get deleting marked del None show ?thesis by simp
        qed
      qed
    qed
  qed
qed

text \<open>
  C9. For every record stored under its own key: whenever a reconciliation issues the
  update of the record (after adding or after removing the finalizer) and the update
  is answered with a conflict, \<open>Reconcile\<close> returns that conflict as its error, with
  the zero result, and the stored records are unchanged. The error is how a retry is
  signalled; a later \<open>Reconcile\<close> on the resulting store (fetch, delete and update not
  failing) fetches the record again and persists the mutation: the record with the
  finalizer added if it is active, with the finalizer removed if it is being deleted.
\<close>

theorem Reconcile_update_conflict_is_retryable:
  assumes stored: "pipelineRuns c req = Some p" and key: "key_of (Meta p) = req"
    and conflict: "Call UpdatePipelineRun k (Some Conflict)
        \<in> set (drop (length (calls c)) (calls (snd (Reconcile fin f req c))))"
    and get2: "g GetPipelineRun = None" and tdel2: "g TknDelete = None"
    and upd2: "g UpdatePipelineRun = None"
  shows "fst (Reconcile fin f req c) = (Result_zero, Some Conflict) \<and>
         pipelineRuns (snd (Reconcile fin f req c)) = pipelineRuns c \<and>
         pipelineRuns (snd (Reconcile fin g req (snd (Reconcile fin f req c)))) =
           (pipelineRuns c)(req \<mapsto>
              (if IsZero (DeletionTimestamp (Meta p)) then AddFinalizer p fin
               else RemoveFinalizer p fin))"
proof -
  let ?c1 = "record_call GetPipelineRun req None c"
  let ?c' = "snd (Reconcile fin f req c)"
  note path = Reconcile_conflict_path [OF stored key conflict]
  have found: "client_Get f req c = (Inr p, ?c1)"
    using path stored by (simp add: client_Get_found)
  have first: "fst (Reconcile fin f req c) = (Result_zero, Some Conflict) \<and>
      pipelineRuns ?c' = pipelineRuns c"
  proof (cases "IsZero (DeletionTimestamp (Meta p))")
    case True
    with path found show ?thesis
      by (simp add: Reconcile_def Let_def client_Update_fault record_call_simps)
  next
    case False
    obtain c2 where del: "deleteExternalResources f p ?c1 = (None, c2)"
      using path False by (cases "deleteExternalResources f p ?c1") simp
    have "pipelineRuns c2 = pipelineRuns c"
      using pipelineRuns_deleteExternalResources [of f p ?c1] del
      by (simp add: record_call_simps)
    with path found False del show ?thesis
      by (simp add: Reconcile_def Let_def client_Update_fault record_call_simps)
  qed
  then have stored': "pipelineRuns ?c' req = Some p" and runs': "pipelineRuns ?c' = pipelineRuns c"
    using stored by simp_all
  let ?d1 = "record_call GetPipelineRun req None ?c'"
  have found': "client_Get g req ?c' = (Inr p, ?d1)"
    using get2 stored' by (simp add: client_Get_found)
  have second: "pipelineRuns (snd (Reconcile fin g req ?c')) =
      (pipelineRuns c)(req \<mapsto>
         (if IsZero (DeletionTimestamp (Meta p)) then AddFinalizer p fin
          else RemoveFinalizer p fin))"
  proof (cases "IsZero (DeletionTimestamp (Meta p))")
    case True
    have "client_Update g (AddFinalizer p fin) ?d1 =
        (None, record_call UpdatePipelineRun req None
                 (?d1\<lparr>pipelineRuns := (pipelineRuns ?d1)(req \<mapsto> AddFinalizer p fin)\<rparr>))"
      using upd2 stored' key
      by (simp add: client_Update_ok key_of_AddFinalizer record_call_simps)
    with True path found' runs' show ?thesis
      by (simp add: Reconcile_def Let_def Reconcile_third_snd
            pipelineRuns_reconcileTektonPipelineRun record_call_simps)
  next
    case False
    obtain d2 where del: "deleteExternalResources g p ?d1 = (None, d2)"
      using deleteExternalResources_no_delete_fault [of g p ?d1] tdel2
      by (cases "deleteExternalResources g p ?d1") simp
    have runs2: "pipelineRuns d2 = pipelineRuns c"
      using pipelineRuns_deleteExternalResources [of g p ?d1] del runs'
      by (simp add: record_call_simps)
    have "client_Update g (RemoveFinalizer p fin) d2 =
        (None, record_call UpdatePipelineRun req None
                 (d2\<lparr>pipelineRuns := (pipelineRuns d2)(req \<mapsto> RemoveFinalizer p fin)\<rparr>))"
      using upd2 stored key runs2
      by (simp add: client_Update_ok key_of_RemoveFinalizer)
    with False path found' del runs2 show ?thesis
      by (simp add: Reconcile_def Let_def record_call_simps)
  qed
  show ?thesis using first second by simp
qed

theorem Reconcile_update_conflict_is_retryable_witness:
  "pipelineRuns cluster_created build1_key = Some build1 \<and>
   key_of (Meta build1) = build1_key \<and>
   Call UpdatePipelineRun build1_key (Some Conflict)
     \<in> set (drop (length (calls cluster_created))
            (calls (snd (Reconcile example_finalizer update_conflict build1_key cluster_created)))) \<and>
   no_faults GetPipelineRun = None \<and> no_faults TknDelete = None \<and>
   no_faults UpdatePipelineRun = None \<and>
   fst (Reconcile example_finalizer update_conflict build1_key cluster_created) =
     (Result_zero, Some Conflict) \<and>
   pipelineRuns (snd (Reconcile example_finalizer no_faults build1_key
       (snd (Reconcile example_finalizer update_conflict build1_key cluster_created)))) =
     [build1_key \<mapsto> build1_registered]"
proof -
  have h1: "pipelineRuns cluster_created build1_key = Some build1"
    by (simp add: cluster_created_def)
  have h2: "key_of (Meta build1) = build1_key"
    by (rule build1_key_of)
  have h3: "Call UpdatePipelineRun build1_key (Some Conflict)
     \<in> set (drop (length (calls cluster_created))
            (calls (snd (Reconcile example_finalizer update_conflict build1_key cluster_created))))"
    by (simp add: run_defs example_defs cluster_defs)
  have g1: "no_faults GetPipelineRun = None" and g2: "no_faults TknDelete = None"
    and g3: "no_faults UpdatePipelineRun = None"
    by (simp_all add: no_faults_def)
  have a: "AddFinalizer build1 example_finalizer = build1_registered"
    by (simp add: AddFinalizer_def build1_registered_def build1_def)
  have z: "IsZero (DeletionTimestamp (Meta build1))"
    by (simp add: build1_def)
  show ?thesis
    using h1 h2 h3 g1 g2 g3
      Reconcile_update_conflict_is_retryable
        [where f = update_conflict and g = no_faults and fin = example_finalizer,
         OF h1 h2 h3 g1 g2 g3]
    by (simp add: a z cluster_created_def)
qed

subsection \<open>The requeue flag\<close>

text \<open>
  C10. For every key, every store state and every way the store calls can fail, the
  result that \<open>Reconcile\<close> returns is the zero \<^verbatim>\<open>ctrl.Result{}\<close>: its requeue flag is false
  (and its requeue delay is zero), so a retry is only ever signalled through the error.
\<close>

theorem Reconcile_never_requeues:
  "fst (fst (Reconcile fin f req c)) = Result_zero \<and>
   Requeue (fst (fst (Reconcile fin f req c))) = False \<and>
   RequeueAfter (fst (fst (Reconcile fin f req c))) = 0"
proof -
  have "fst (fst (Reconcile fin f req c)) = Result_zero"
    by (simp add: Reconcile_def Reconcile_third_Result Let_def
             split: prod.splits sum.splits option.splits)
  then show ?thesis by (simp add: Result_zero_def)
qed

theorem Reconcile_never_requeues_witness:
  "Requeue (fst (fst (Reconcile example_finalizer no_faults build1_key
      \<lparr>pipelineRuns = [build1_key \<mapsto> build1], tektonPipelineRuns = Map.empty, calls = []\<rparr>))) = False"
  using Reconcile_never_requeues [of example_finalizer no_faults build1_key
      "\<lparr>pipelineRuns = [build1_key \<mapsto> build1], tektonPipelineRuns = Map.empty, calls = []\<rparr>"]
  by (simp add: Result_zero_def)

end
